theory Spec2Isabelle
  imports Complex_Main
begin

section \<open>The code generator of core/generator.js\<close>

text \<open>
  A shallow embedding of \<^verbatim>\<open>Blockly.Generator\<close> (core/generator.js): the walk over
  the blocks (\<^verbatim>\<open>blockToCode\<close>, \<^verbatim>\<open>valueToCode\<close>, \<^verbatim>\<open>statementToCode\<close>,
  \<^verbatim>\<open>workspaceToCode\<close>), the text helper \<^verbatim>\<open>prefixLines\<close> and the registry of
  shared functions (\<^verbatim>\<open>provideFunction_\<close>). A name of the source that ends in an
  underscore is written without it (\<^verbatim>\<open>name_\<close> is \<open>name\<close>, \<^verbatim>\<open>scrub_\<close> is
  \<open>scrub\<close>, \<^verbatim>\<open>provideFunction_\<close> is \<open>provideFunction\<close>).
\<close>

subsection \<open>Strings, characters and numbers of the source language\<close>

text \<open>
  A string is a list of characters; the characters stand for the code units below 256.
  The three character classes the regular expressions of the source use:
  \<^verbatim>\<open>.\<close> (anything but a line terminator), \<^verbatim>\<open>\s\<close> (white space, line
  terminators included) and \<^verbatim>\<open>[ \t]\<close>.
\<close>

abbreviation NL :: char where
  "NL \<equiv> CHR 0x0A"

definition regex_dot :: "char \<Rightarrow> bool" where
  "regex_dot c = (c \<noteq> NL \<and> c \<noteq> CHR 0x0D)"

definition regex_s :: "char \<Rightarrow> bool" where
  "regex_s c = (c = CHR 0x09 \<or> c = NL \<or> c = CHR 0x0B \<or> c = CHR 0x0C \<or> c = CHR 0x0D
                \<or> c = CHR 0x20 \<or> c = CHR 0xA0)"

definition regex_hspace :: "char \<Rightarrow> bool" where
  "regex_hspace c = (c = CHR 0x20 \<or> c = CHR 0x09)"

text \<open>
  A number is a finite value or fails the \<^verbatim>\<open>isNaN\<close> test (\<open>NaN\<close>, which also
  stands for a missing order: \<^verbatim>\<open>isNaN(undefined)\<close> is true). The orders of a
  language are small whole numbers; the infinite values are left out.
\<close>

datatype jsnumber = Num real | NaN

text \<open>\<^verbatim>\<open>Array.prototype.join\<close> on a list of strings.\<close>

fun join :: "string \<Rightarrow> string list \<Rightarrow> string" where
  "join sep [] = []"
| "join sep [x] = x"
| "join sep (x # y # ys) = x @ sep @ join sep (y # ys)"

text \<open>
  The replacement text of \<^verbatim>\<open>String.prototype.replace\<close> is a template: ECMAScript's
  GetSubstitution reads \<^verbatim>\<open>$$\<close> as a dollar sign, \<^verbatim>\<open>$&\<close> as the matched text,
  \<^verbatim>\<open>$`\<close> and \<^verbatim>\<open>$'\<close> as the text before and after the match (\<open>pre\<close> and
  \<open>post\<close>), and \<^verbatim>\<open>$n\<close>,
  \<^verbatim>\<open>$nn\<close> as the capture of that number when the expression has one; every other
  character stands for itself.
\<close>

definition is_digit :: "char \<Rightarrow> bool" where
  "is_digit c = (48 \<le> (of_char c :: nat) \<and> (of_char c :: nat) \<le> 57)"

definition digit_val :: "char \<Rightarrow> nat" where
  "digit_val c = of_char c - 48"

fun getSubstitution :: "string \<Rightarrow> string \<Rightarrow> string \<Rightarrow> string list \<Rightarrow> string \<Rightarrow> string" where
  "getSubstitution matched pre post caps [] = []"
| "getSubstitution matched pre post caps [c] = [c]"
| "getSubstitution matched pre post caps (c # d # r) =
     (if c \<noteq> CHR ''$'' then c # getSubstitution matched pre post caps (d # r)
      else if d = CHR ''$'' then CHR ''$'' # getSubstitution matched pre post caps r
      else if d = CHR ''&'' then matched @ getSubstitution matched pre post caps r
      else if d = CHR 0x60 then pre @ getSubstitution matched pre post caps r
      else if d = CHR 0x27 then post @ getSubstitution matched pre post caps r
      else if is_digit d then
        (case r of
           e # r' \<Rightarrow>
             if is_digit e \<and> 1 \<le> 10 * digit_val d + digit_val e
                \<and> 10 * digit_val d + digit_val e \<le> length caps
             then caps ! (10 * digit_val d + digit_val e - 1)
                  @ getSubstitution matched pre post caps r'
             else if 1 \<le> digit_val d \<and> digit_val d \<le> length caps
             then caps ! (digit_val d - 1) @ getSubstitution matched pre post caps r
             else c # getSubstitution matched pre post caps (d # r)
         | [] \<Rightarrow>
             if 1 \<le> digit_val d \<and> digit_val d \<le> length caps
             then caps ! (digit_val d - 1)
             else [c, d])
      else c # getSubstitution matched pre post caps (d # r))"

subsection \<open>prefixLines\<close>

text \<open>
  \<^verbatim>\<open>text.replace(/\n(.)/g, template)\<close>: the text is scanned from the left; a newline
  followed by a character that \<^verbatim>\<open>.\<close> matches is a match of two characters, with
  that character as capture 1, and the scan goes on after it. \<open>pre\<close> is the part
  of the text already scanned.
\<close>

fun replaceNewlineDot :: "string \<Rightarrow> string \<Rightarrow> string \<Rightarrow> string" where
  "replaceNewlineDot template pre [] = []"
| "replaceNewlineDot template pre [c] = [c]"
| "replaceNewlineDot template pre (c # d # cs) =
     (if c = NL \<and> regex_dot d
      then getSubstitution [c, d] pre cs [[d]] template
           @ replaceNewlineDot template (pre @ [c, d]) cs
      else c # replaceNewlineDot template (pre @ [c]) (d # cs))"

text \<open>\<^verbatim>\<open>return prefix + text.replace(/\n(.)/g, '\n' + prefix + '$1');\<close>\<close>

definition prefixLines :: "string \<Rightarrow> string \<Rightarrow> string" where
  "prefixLines text prefix = prefix @ replaceNewlineDot (NL # prefix @ ''$1'') [] text"

subsection \<open>Blocks, translation results and errors\<close>

text \<open>
  A block as the generator reads it: \<^verbatim>\<open>block.type\<close>, \<^verbatim>\<open>block.disabled\<close>, its
  named inputs with the block connected to each (if any), the block its next connection
  leads to (\<^verbatim>\<open>block.nextConnection && block.nextConnection.targetBlock()\<close>), whether it
  has an output connection, and its comment text.
\<close>

datatype block =
  Block (btype: string) (disabled: bool) (inputs: "(string \<times> block option) list")
        (nextBlock: "block option") (outputConnection: bool) (commentText: "string option")

text \<open>
  Modelled from the spec: \<^verbatim>\<open>Block.getInputTargetBlock\<close> is not part of the sources.
  It gives the block connected to the input of that name, and nothing when the input
  does not exist or has no block connected.
\<close>

definition getInputTargetBlock :: "block \<Rightarrow> string \<Rightarrow> block option" where
  "getInputTargetBlock b nm = (case map_of (inputs b) nm of None \<Rightarrow> None | Some t \<Rightarrow> t)"

text \<open>
  What a translation rule returns: a plain string (a statement block) or an array of the
  code and its operator order (a value block).
\<close>

datatype result = Str string | Tuple string jsnumber

text \<open>
  The source throws strings; \<open>message\<close> gives the text of each. \<open>JsTypeError\<close> is the
  TypeError the runtime raises, \<open>Thrown\<close> whatever a language's own rule throws.
\<close>

datatype error =
    UnsupportedBlockType string string
  | InvalidOrder string
  | ExpectingTuple string
  | InvalidInnerOrder string
  | ExpectingCode string
  | JsTypeError string
  | Thrown string

fun message :: "error \<Rightarrow> string" where
  "message (UnsupportedBlockType lang t) =
     ''Language \"'' @ lang @ ''\" does not know how to generate code for block type \"'' @ t @ ''\".''"
| "message (InvalidOrder t) = ''Expecting valid order from block \"'' @ t @ ''\".''"
| "message (ExpectingTuple t) = ''Expecting tuple from value block \"'' @ t @ ''\".''"
| "message (InvalidInnerOrder t) = ''Expecting valid order from value block \"'' @ t @ ''\".''"
| "message (ExpectingCode t) = ''Expecting code from statement block \"'' @ t @ ''\".''"
| "message (JsTypeError m) = m"
| "message (Thrown m) = m"

text \<open>
  A generator: its language name, the translation rules of the language (the property
  \<^verbatim>\<open>this[block.type]\<close>, a function of the block), and the hooks \<^verbatim>\<open>init\<close>,
  \<^verbatim>\<open>finish\<close> and \<^verbatim>\<open>scrubNakedValue\<close> (which a language may leave out). Rules
  and hooks read and change the state of the pass, of type \<open>'s\<close>, and a rule may throw.
\<close>

record 's generator =
  name :: string
  rules :: "string \<Rightarrow> (block \<Rightarrow> 's \<Rightarrow> (error + result) \<times> 's) option"
  init :: "'s \<Rightarrow> 's"
  finish :: "string \<Rightarrow> 's \<Rightarrow> string \<times> 's"
  scrubNakedValue :: "(string \<Rightarrow> string) option"

subsection \<open>blockToCode\<close>

text \<open>
  Modelled from the spec: the hook \<^verbatim>\<open>scrub_\<close> is defined by each language and is
  not part of the sources. The spec has it append "any trailing comment text" and
  recursively append "the code for the block's next-linked block"; of a next block
  that yields an array, the code is appended.

  \<^verbatim>\<open>blockToCode\<close> is the source's: nothing for no block, the next block's code for
  a disabled block, an error for a type without a rule, and otherwise the rule's
  result with its code passed through \<^verbatim>\<open>scrub_\<close>.
\<close>

fun blockToCode :: "'s generator \<Rightarrow> block option \<Rightarrow> 's \<Rightarrow> (error + result) \<times> 's"
and scrub :: "'s generator \<Rightarrow> block \<Rightarrow> string \<Rightarrow> 's \<Rightarrow> (error + string) \<times> 's" where
  "blockToCode g None st = (Inr (Str []), st)"
| "blockToCode g (Some (Block t d ins nx out cm)) st =
     (if d then blockToCode g nx st
      else (case rules g t of
              None \<Rightarrow> (Inl (UnsupportedBlockType (name g) t), st)
            | Some func \<Rightarrow>
                (case func (Block t d ins nx out cm) st of
                   (Inl e, st') \<Rightarrow> (Inl e, st')
                 | (Inr (Tuple code ord), st') \<Rightarrow>
                     (case scrub g (Block t d ins nx out cm) code st' of
                        (Inl e, st'') \<Rightarrow> (Inl e, st'')
                      | (Inr s, st'') \<Rightarrow> (Inr (Tuple s ord), st''))
                 | (Inr (Str code), st') \<Rightarrow>
                     (case scrub g (Block t d ins nx out cm) code st' of
                        (Inl e, st'') \<Rightarrow> (Inl e, st'')
                      | (Inr s, st'') \<Rightarrow> (Inr (Str s), st'')))))"
| "scrub g (Block t d ins nx out cm) code st =
     (case blockToCode g nx st of
        (Inl e, st') \<Rightarrow> (Inl e, st')
      | (Inr r, st') \<Rightarrow>
          (Inr (code @ (case cm of None \<Rightarrow> [] | Some c \<Rightarrow> c)
                     @ (case r of Str s \<Rightarrow> s | Tuple s n \<Rightarrow> s)), st'))"

subsection \<open>valueToCode\<close>

definition valueToCode ::
  "'s generator \<Rightarrow> block \<Rightarrow> string \<Rightarrow> jsnumber \<Rightarrow> 's \<Rightarrow> (error + string) \<times> 's" where
  "valueToCode g block nm ord st =
     (case ord of
        NaN \<Rightarrow> (Inl (InvalidOrder (btype block)), st)
      | Num order \<Rightarrow>
          (case getInputTargetBlock block nm of
             None \<Rightarrow> (Inr [], st)
           | Some targetBlock \<Rightarrow>
               (case blockToCode g (Some targetBlock) st of
                  (Inl e, st') \<Rightarrow> (Inl e, st')
                | (Inr (Str s), st') \<Rightarrow>
                    if s = [] then (Inr [], st')
                    else (Inl (ExpectingTuple (btype targetBlock)), st')
                | (Inr (Tuple code inner), st') \<Rightarrow>
                    (case inner of
                       NaN \<Rightarrow> (Inl (InvalidInnerOrder (btype targetBlock)), st')
                     | Num innerOrder \<Rightarrow>
                         if code \<noteq> [] \<and> order \<le> innerOrder
                         then (if order = innerOrder \<or> (order = 0 \<or> order = 99)
                               then (Inr code, st')
                               else (Inr (''('' @ code @ '')''), st'))
                         else (Inr code, st')))))"

subsection \<open>statementToCode\<close>

text \<open>
  The guard of the source is \<^verbatim>\<open>!typeof code == "string"\<close>. The negation binds
  tighter than the comparison: \<^verbatim>\<open>typeof code\<close> is negated first (the negation of
  a string is true for the empty string only), and the boolean is then compared with
  the text "string" by converting both to numbers: false is 0, true is 1, and that
  text, which is no numeral, is NaN, which equals no number.
\<close>

definition typeof :: "result \<Rightarrow> string" where
  "typeof code = (case code of Str s \<Rightarrow> ''string'' | Tuple s n \<Rightarrow> ''object'')"

definition logicalNot :: "string \<Rightarrow> bool" where
  "logicalNot s = (s = [])"

definition boolToNumber :: "bool \<Rightarrow> jsnumber" where
  "boolToNumber b = Num (if b then 1 else 0)"

definition numberOfTextString :: jsnumber where
  "numberOfTextString = NaN"

definition numberEquals :: "jsnumber \<Rightarrow> jsnumber \<Rightarrow> bool" where
  "numberEquals a b =
     (case a of NaN \<Rightarrow> False | Num x \<Rightarrow> (case b of NaN \<Rightarrow> False | Num y \<Rightarrow> x = y))"

definition expectingCodeGuard :: "result \<Rightarrow> bool" where
  "expectingCodeGuard code =
     numberEquals (boolToNumber (logicalNot (typeof code))) numberOfTextString"

text \<open>
  After the guard, code that is not empty goes to \<^verbatim>\<open>prefixLines\<close>; an array is
  not empty, and \<^verbatim>\<open>prefixLines\<close> calls \<^verbatim>\<open>text.replace\<close> on it, which an array
  does not have: the runtime raises a TypeError. Inside the guard the source reads
  \<^verbatim>\<open>targetBlock.type\<close>, a TypeError too when there is no target block.
\<close>

definition statementToCode ::
  "'s generator \<Rightarrow> block \<Rightarrow> string \<Rightarrow> 's \<Rightarrow> (error + string) \<times> 's" where
  "statementToCode g block nm st =
     (let targetBlock = getInputTargetBlock block nm in
      case blockToCode g targetBlock st of
        (Inl e, st') \<Rightarrow> (Inl e, st')
      | (Inr code, st') \<Rightarrow>
          if expectingCodeGuard code
          then (case targetBlock of
                  None \<Rightarrow> (Inl (JsTypeError ''targetBlock is null''), st')
                | Some t \<Rightarrow> (Inl (ExpectingCode (btype t)), st'))
          else (case code of
                  Str s \<Rightarrow> (Inr (if s \<noteq> [] then prefixLines s ''  '' else s), st')
                | Tuple s n \<Rightarrow> (Inl (JsTypeError ''text.replace is not a function''), st')))"

subsection \<open>workspaceToCode\<close>









subsection \<open>provideFunction\<close>

definition NAME_TYPE :: string where
  "NAME_TYPE = ''generated_function''"

definition FUNCTION_NAME_PLACEHOLDER :: string where
  "FUNCTION_NAME_PLACEHOLDER = ''{leCUI8hutHZI4480Dc}''"

text \<open>
  \<^verbatim>\<open>text.replace(FUNCTION_NAME_PLACEHOLDER_REGEXP_, template)\<close>: the expression is
  built from the placeholder with the flag g; a brace that opens no quantifier stands
  for itself, so the expression matches the placeholder's own text, everywhere.
\<close>

function replacePlaceholder :: "string \<Rightarrow> string \<Rightarrow> string \<Rightarrow> string" where
  "replacePlaceholder template pre s =
     (if s = [] then []
      else if take (length FUNCTION_NAME_PLACEHOLDER) s = FUNCTION_NAME_PLACEHOLDER
      then getSubstitution FUNCTION_NAME_PLACEHOLDER pre
             (drop (length FUNCTION_NAME_PLACEHOLDER) s) [] template
           @ replacePlaceholder template (pre @ FUNCTION_NAME_PLACEHOLDER)
               (drop (length FUNCTION_NAME_PLACEHOLDER) s)
      else hd s # replacePlaceholder template (pre @ [hd s]) (tl s))"
  by pat_completeness auto
termination
  by (relation "measure (\<lambda>(t, b, s). length s)")
     (auto simp: FUNCTION_NAME_PLACEHOLDER_def)

text \<open>
  The state \<^verbatim>\<open>provideFunction_\<close> works on: the objects \<^verbatim>\<open>definitions_\<close> and
  \<^verbatim>\<open>functionNames_\<close> (a property that is not set reads as undefined, here \<open>None\<close>)
  and the name database \<^verbatim>\<open>variableDB_\<close>, whose \<^verbatim>\<open>getDistinctName\<close> is not part
  of the sources and is a parameter: it gives a name and the database after the call.
\<close>

record 'db registry =
  definitions :: "string \<rightharpoonup> string"
  functionNames :: "string \<rightharpoonup> string"
  variableDB :: 'db

definition provideFunction ::
  "(string \<Rightarrow> string \<Rightarrow> 'db \<Rightarrow> string \<times> 'db) \<Rightarrow> string \<Rightarrow> string list
     \<Rightarrow> 'db registry \<Rightarrow> string option \<times> 'db registry" where
  "provideFunction getDistinctName desiredName code st =
     (if (case definitions st desiredName of None \<Rightarrow> True | Some d \<Rightarrow> d = [])
      then (case getDistinctName desiredName NAME_TYPE (variableDB st) of
              (functionName, db') \<Rightarrow>
                (let st' = st\<lparr> variableDB := db',
                               functionNames := (functionNames st)(desiredName \<mapsto> functionName),
                               definitions := (definitions st)(desiredName \<mapsto>
                                 replacePlaceholder functionName [] (join [NL] code)) \<rparr>
                 in (functionNames st' desiredName, st')))
      else (functionNames st desiredName, st))"

subsection \<open>Conditions the properties name\<close>

text \<open>
  When the spec has \<^verbatim>\<open>valueToCode\<close> put parentheses, in its own words: the inner
  order is at or above \<open>maxOrder\<close>, the two are not the same level, and neither is
  the atomic level 0 or the level 99 of no precedence.
\<close>

definition claimedParentheses :: "real \<Rightarrow> real \<Rightarrow> bool" where
  "claimedParentheses n maxOrder =
     (maxOrder \<le> n \<and> n \<noteq> maxOrder \<and> n \<noteq> 0 \<and> n \<noteq> 99 \<and> maxOrder \<noteq> 0 \<and> maxOrder \<noteq> 99)"


text \<open>
  What the spec says of \<^verbatim>\<open>prefixLines\<close>, in its own words: the prefix before the
  first line and before every line that follows an embedded newline (a newline with
  text after it).
\<close>

fun claimedPrefixAfter :: "string \<Rightarrow> string \<Rightarrow> string" where
  "claimedPrefixAfter prefix [] = []"
| "claimedPrefixAfter prefix [c] = [c]"
| "claimedPrefixAfter prefix (c # d # cs) =
     (if c = NL then NL # prefix @ claimedPrefixAfter prefix (d # cs)
      else c # claimedPrefixAfter prefix (d # cs))"

definition claimedPrefixLines :: "string \<Rightarrow> string \<Rightarrow> string" where
  "claimedPrefixLines text prefix = prefix @ claimedPrefixAfter prefix text"

text \<open>
  The lines of a text, split at its newlines, and what \<^verbatim>\<open>prefixLines\<close> does with
  a line after the first: the prefix goes before a line that starts with a character
  that \<^verbatim>\<open>.\<close> matches; an empty line and a line that starts with a carriage return
  stay as they are.
\<close>

fun splitLines :: "string \<Rightarrow> string list" where
  "splitLines [] = [[]]"
| "splitLines (c # cs) =
     (if c = NL then [] # splitLines cs
      else (c # hd (splitLines cs)) # tl (splitLines cs))"

definition prefixLaterLine :: "string \<Rightarrow> string \<Rightarrow> string" where
  "prefixLaterLine prefix l = (case l of [] \<Rightarrow> [] | c # cs \<Rightarrow> if regex_dot c then prefix @ l else l)"





subsection \<open>Example inputs\<close>

text \<open>
  A language with six rules, on a pass without state: value blocks (an addition of
  order 4, a conditional of order 99 and one of order 4 whose code is empty), two
  statement blocks, and a statement block whose text starts with a newline and has none
  at its end.
\<close>

definition exampleGenerator :: "unit generator" where
  "exampleGenerator =
     \<lparr> name = ''JavaScript'',
       rules = [''math_add'' \<mapsto> (\<lambda>b st. (Inr (Tuple ''a + b'' (Num 4)), st)),
                ''conditional'' \<mapsto> (\<lambda>b st. (Inr (Tuple ''c ? x : y'' (Num 99)), st)),
                ''print_hello'' \<mapsto> (\<lambda>b st. (Inr (Str (''print(1);'' @ [NL])), st)),
                ''print_world'' \<mapsto> (\<lambda>b st. (Inr (Str (''print(2);'' @ [NL])), st)),
                ''bare'' \<mapsto> (\<lambda>b st. (Inr (Str (NL # ''x = 1;'')), st)),
                ''nothing'' \<mapsto> (\<lambda>b st. (Inr (Tuple [] (Num 4)), st))],
       init = (\<lambda>st. st),
       finish = (\<lambda>code st. (code, st)),
       scrubNakedValue = None \<rparr>"

definition valueBlock :: "string \<Rightarrow> block" where
  "valueBlock t = Block t False [] None True None"

definition statementBlock :: "string \<Rightarrow> bool \<Rightarrow> block option \<Rightarrow> block" where
  "statementBlock t d nx = Block t d [] nx False None"

definition parentOf :: "block option \<Rightarrow> block" where
  "parentOf b = Block ''math_multiply'' False [(''A'', b)] None True None"

text \<open>
  Modelled from the spec: the Name Database is not part of the sources; it "resolves
  desired identifier names to collision-free actual names". This one keeps the names it
  has given out and puts underscores after a name until it is none of them.
\<close>

fun unusedName :: "string list \<Rightarrow> string \<Rightarrow> nat \<Rightarrow> string" where
  "unusedName used nm 0 = nm"
| "unusedName used nm (Suc k) =
     (if nm \<in> set used then unusedName used (nm @ ''_'') k else nm)"

definition listGetDistinctName :: "string \<Rightarrow> string \<Rightarrow> string list \<Rightarrow> string \<times> string list" where
  "listGetDistinctName nm ty used =
     (case unusedName used nm (length used) of a \<Rightarrow> (a, a # used))"

definition emptyRegistry :: "string list registry" where
  "emptyRegistry = \<lparr> definitions = Map.empty, functionNames = Map.empty, variableDB = [] \<rparr>"

section \<open>Properties\<close>

subsection \<open>Equations of blockToCode by the fields of the block\<close>

lemma blockToCode_Some:
  "blockToCode g (Some b) st =
     (if disabled b then blockToCode g (nextBlock b) st
      else (case rules g (btype b) of
              None \<Rightarrow> (Inl (UnsupportedBlockType (name g) (btype b)), st)
            | Some func \<Rightarrow>
                (case func b st of
                   (Inl e, st') \<Rightarrow> (Inl e, st')
                 | (Inr (Tuple code ord), st') \<Rightarrow>
                     (case scrub g b code st' of
                        (Inl e, st'') \<Rightarrow> (Inl e, st'')
                      | (Inr s, st'') \<Rightarrow> (Inr (Tuple s ord), st''))
                 | (Inr (Str code), st') \<Rightarrow>
                     (case scrub g b code st' of
                        (Inl e, st'') \<Rightarrow> (Inl e, st'')
                      | (Inr s, st'') \<Rightarrow> (Inr (Str s), st'')))))"
  by (cases b) (simp split: option.split prod.split sum.split result.split)

lemma scrub_eq:
  "scrub g b code st =
     (case blockToCode g (nextBlock b) st of
        (Inl e, st') \<Rightarrow> (Inl e, st')
      | (Inr r, st') \<Rightarrow>
          (Inr (code @ (case commentText b of None \<Rightarrow> [] | Some c \<Rightarrow> c)
                     @ (case r of Str s \<Rightarrow> s | Tuple s n \<Rightarrow> s)), st'))"
  by (cases b) (simp split: option.split prod.split sum.split result.split)

subsection \<open>The example inputs, evaluated\<close>

lemma example_target: "getInputTargetBlock (parentOf b) ''A'' = b"
  by (cases b) (simp_all add: getInputTargetBlock_def parentOf_def)

lemma example_btype: "btype (parentOf b) = ''math_multiply''"
  by (simp add: parentOf_def)

lemma example_add:
  "blockToCode exampleGenerator (Some (valueBlock ''math_add'')) ()
     = (Inr (Tuple ''a + b'' (Num 4)), ())"
  by (simp add: valueBlock_def exampleGenerator_def)

lemma example_conditional:
  "blockToCode exampleGenerator (Some (valueBlock ''conditional'')) ()
     = (Inr (Tuple ''c ? x : y'' (Num 99)), ())"
  by (simp add: valueBlock_def exampleGenerator_def)

lemma example_nothing:
  "blockToCode exampleGenerator (Some (valueBlock ''nothing'')) () = (Inr (Tuple [] (Num 4)), ())"
  by (simp add: valueBlock_def exampleGenerator_def)

lemma example_print:
  "blockToCode exampleGenerator (Some (statementBlock ''print_hello'' False None)) ()
     = (Inr (Str (''print(1);'' @ [NL])), ())"
  by (simp add: statementBlock_def exampleGenerator_def)



subsection \<open>Parentheses around a value\<close>

text \<open>
  C1, amended. When a block is connected at the named input and its translation is the
  code \<open>s\<close> with the order \<open>n\<close>, and \<open>maxOrder\<close> and \<open>n\<close> are numbers,
  \<^verbatim>\<open>valueToCode\<close> returns \<open>s\<close> in parentheses exactly when \<open>s\<close> is not empty,
  \<open>n\<close> is at or above \<open>maxOrder\<close> and not equal to it, and \<open>maxOrder\<close> is
  neither 0 nor 99; in every other case it returns \<open>s\<close> as it is. In particular
  there are no parentheses when \<open>n\<close> equals \<open>maxOrder\<close>. The levels 0 and 99 count
  on the side of \<open>maxOrder\<close> only.
\<close>

theorem valueToCode_parentheses:
  assumes "getInputTargetBlock block nm = Some targetBlock"
      and "blockToCode g (Some targetBlock) st = (Inr (Tuple s (Num n)), st')"
  shows "valueToCode g block nm (Num maxOrder) st =
           (Inr (if s \<noteq> [] \<and> maxOrder \<le> n \<and> n \<noteq> maxOrder \<and> maxOrder \<noteq> 0 \<and> maxOrder \<noteq> 99
                 then ''('' @ s @ '')'' else s), st')"
  using assms by (simp add: valueToCode_def)

theorem valueToCode_parentheses_witness:
  "getInputTargetBlock (parentOf (Some (valueBlock ''math_add''))) ''A''
     = Some (valueBlock ''math_add'')
   \<and> blockToCode exampleGenerator (Some (valueBlock ''math_add'')) ()
       = (Inr (Tuple ''a + b'' (Num 4)), ())
   \<and> valueToCode exampleGenerator (parentOf (Some (valueBlock ''math_add''))) ''A'' (Num 3) ()
       = (Inr ''(a + b)'', ())
   \<and> valueToCode exampleGenerator (parentOf (Some (valueBlock ''math_add''))) ''A'' (Num 4) ()
       = (Inr ''a + b'', ())"
  using valueToCode_parentheses [OF example_target example_add, of 3]
        valueToCode_parentheses [OF example_target example_add, of 4]
  by (simp add: example_target example_add)

text \<open>
  The claim as it was stated fails twice: a conditional of order 99 under
  \<open>maxOrder = 3\<close> is put in parentheses, though 99 is a level the claim excludes;
  and empty code of order 4 under \<open>maxOrder = 3\<close> stays empty, though the claim's
  condition holds.
\<close>

theorem valueToCode_parentheses_counterexample:
  "getInputTargetBlock (parentOf (Some (valueBlock ''conditional''))) ''A''
     = Some (valueBlock ''conditional'')
   \<and> blockToCode exampleGenerator (Some (valueBlock ''conditional'')) ()
       = (Inr (Tuple ''c ? x : y'' (Num 99)), ())
   \<and> \<not> claimedParentheses 99 3
   \<and> valueToCode exampleGenerator (parentOf (Some (valueBlock ''conditional''))) ''A'' (Num 3) ()
       = (Inr ''(c ? x : y)'', ())
   \<and> getInputTargetBlock (parentOf (Some (valueBlock ''nothing''))) ''A''
       = Some (valueBlock ''nothing'')
   \<and> blockToCode exampleGenerator (Some (valueBlock ''nothing'')) () = (Inr (Tuple [] (Num 4)), ())
   \<and> claimedParentheses 4 3
   \<and> valueToCode exampleGenerator (parentOf (Some (valueBlock ''nothing''))) ''A'' (Num 3) ()
       = (Inr [], ())"
  by (simp add: example_target example_conditional example_nothing valueToCode_def
        claimedParentheses_def)

text \<open>
  C2, amended. When the translation of the connected block is code that is not empty,
  of an order \<open>n\<close> above \<open>maxOrder\<close> that is neither 0 nor 99, and \<open>maxOrder\<close>
  itself is neither 0 nor 99, \<^verbatim>\<open>valueToCode\<close> returns the code in exactly one
  pair of parentheses.
\<close>

theorem valueToCode_weaker_order:
  assumes "getInputTargetBlock block nm = Some targetBlock"
      and "blockToCode g (Some targetBlock) st = (Inr (Tuple s (Num n)), st')"
      and "s \<noteq> []" and "maxOrder < n" and "n \<noteq> 0" and "n \<noteq> 99"
      and "maxOrder \<noteq> 0" and "maxOrder \<noteq> 99"
  shows "valueToCode g block nm (Num maxOrder) st = (Inr (''('' @ s @ '')''), st')"
  using assms by (simp add: valueToCode_def)

theorem valueToCode_weaker_order_witness:
  "getInputTargetBlock (parentOf (Some (valueBlock ''math_add''))) ''A''
     = Some (valueBlock ''math_add'')
   \<and> blockToCode exampleGenerator (Some (valueBlock ''math_add'')) ()
       = (Inr (Tuple ''a + b'' (Num 4)), ())
   \<and> ''a + b'' \<noteq> [] \<and> (3::real) < 4 \<and> (4::real) \<noteq> 0 \<and> (4::real) \<noteq> 99
   \<and> (3::real) \<noteq> 0 \<and> (3::real) \<noteq> 99
   \<and> valueToCode exampleGenerator (parentOf (Some (valueBlock ''math_add''))) ''A'' (Num 3) ()
       = (Inr ''(a + b)'', ())"
  using valueToCode_weaker_order [OF example_target example_add, of 3]
  by (simp add: example_target example_add)

text \<open>
  The claim as it was stated fails where \<open>maxOrder\<close> is 0: an addition of order 4
  comes back without parentheses.
\<close>

theorem valueToCode_weaker_order_counterexample:
  "getInputTargetBlock (parentOf (Some (valueBlock ''math_add''))) ''A''
     = Some (valueBlock ''math_add'')
   \<and> blockToCode exampleGenerator (Some (valueBlock ''math_add'')) ()
       = (Inr (Tuple ''a + b'' (Num 4)), ())
   \<and> ''a + b'' \<noteq> [] \<and> (0::real) < 4 \<and> (4::real) \<noteq> 0 \<and> (4::real) \<noteq> 99
   \<and> valueToCode exampleGenerator (parentOf (Some (valueBlock ''math_add''))) ''A'' (Num 0) ()
       = (Inr ''a + b'', ())
   \<and> ''a + b'' \<noteq> ''('' @ ''a + b'' @ '')''"
  by (simp add: example_target example_add valueToCode_def)

lemma example_disabled:
  "blockToCode exampleGenerator (Some (statementBlock ''print_hello'' True None)) ()
     = (Inr (Str []), ())"
  by (simp add: statementBlock_def)

subsection \<open>What valueToCode returns without a value\<close>

text \<open>
  C7, amended. With a \<open>maxOrder\<close> that is a number, \<^verbatim>\<open>valueToCode\<close> returns the
  empty string when no block is connected at the named input, and when the translation
  of the connected block came back as the empty string (so for a disabled block with
  no next block); and when that translation is a plain string that is not empty, it
  fails with the error "Expecting tuple from value block", which names the type of the
  connected block. (A \<open>maxOrder\<close> that fails \<^verbatim>\<open>isNaN\<close> is refused before the input
  is looked at.)
\<close>

theorem valueToCode_no_value:
  "(getInputTargetBlock block nm = None
      \<longrightarrow> valueToCode g block nm (Num maxOrder) st = (Inr [], st))
   \<and> (getInputTargetBlock block nm = Some targetBlock
        \<and> blockToCode g (Some targetBlock) st = (Inr (Str []), st')
      \<longrightarrow> valueToCode g block nm (Num maxOrder) st = (Inr [], st'))
   \<and> (getInputTargetBlock block nm = Some targetBlock
        \<and> disabled targetBlock \<and> nextBlock targetBlock = None
      \<longrightarrow> valueToCode g block nm (Num maxOrder) st = (Inr [], st))
   \<and> (getInputTargetBlock block nm = Some targetBlock
        \<and> blockToCode g (Some targetBlock) st = (Inr (Str s), st') \<and> s \<noteq> []
      \<longrightarrow> valueToCode g block nm (Num maxOrder) st
            = (Inl (ExpectingTuple (btype targetBlock)), st')
          \<and> message (ExpectingTuple (btype targetBlock))
              = ''Expecting tuple from value block \"'' @ btype targetBlock @ ''\".'')
   \<and> valueToCode g block nm NaN st = (Inl (InvalidOrder (btype block)), st)"
  by (simp add: valueToCode_def blockToCode_Some)

theorem valueToCode_no_value_witness:
  "getInputTargetBlock (parentOf None) ''A'' = None
   \<and> valueToCode exampleGenerator (parentOf None) ''A'' (Num 3) () = (Inr [], ())
   \<and> getInputTargetBlock (parentOf (Some (statementBlock ''print_hello'' True None))) ''A''
       = Some (statementBlock ''print_hello'' True None)
   \<and> disabled (statementBlock ''print_hello'' True None)
   \<and> nextBlock (statementBlock ''print_hello'' True None) = None
   \<and> blockToCode exampleGenerator (Some (statementBlock ''print_hello'' True None)) ()
       = (Inr (Str []), ())
   \<and> valueToCode exampleGenerator (parentOf (Some (statementBlock ''print_hello'' True None)))
        ''A'' (Num 3) () = (Inr [], ())
   \<and> getInputTargetBlock (parentOf (Some (statementBlock ''print_hello'' False None))) ''A''
       = Some (statementBlock ''print_hello'' False None)
   \<and> blockToCode exampleGenerator (Some (statementBlock ''print_hello'' False None)) ()
       = (Inr (Str (''print(1);'' @ [NL])), ())
   \<and> valueToCode exampleGenerator (parentOf (Some (statementBlock ''print_hello'' False None)))
        ''A'' (Num 3) () = (Inl (ExpectingTuple ''print_hello''), ())
   \<and> message (ExpectingTuple ''print_hello'')
       = ''Expecting tuple from value block \"print_hello\".''"
  using valueToCode_no_value [where block = "parentOf None" and nm = "''A''"
          and g = exampleGenerator and maxOrder = 3 and st = "()"]
        valueToCode_no_value [where block = "parentOf (Some (statementBlock ''print_hello'' True None))"
          and nm = "''A''" and targetBlock = "statementBlock ''print_hello'' True None"
          and g = exampleGenerator and st = "()" and st' = "()" and maxOrder = 3]
        valueToCode_no_value [where block = "parentOf (Some (statementBlock ''print_hello'' False None))"
          and nm = "''A''" and targetBlock = "statementBlock ''print_hello'' False None"
          and g = exampleGenerator and st = "()" and st' = "()" and maxOrder = 3
          and s = "''print(1);'' @ [NL]"]
  by (simp add: example_target example_disabled example_print) (simp add: statementBlock_def)

text \<open>
  The claim as it was stated fails for a \<open>maxOrder\<close> that is no number: with no block
  connected, the call does not return the empty string but throws.
\<close>

theorem valueToCode_no_value_counterexample:
  "getInputTargetBlock (parentOf None) ''A'' = None
   \<and> valueToCode exampleGenerator (parentOf None) ''A'' NaN ()
       = (Inl (InvalidOrder ''math_multiply''), ())"
  by (simp add: example_target valueToCode_def example_btype)

subsection \<open>A block type without a rule\<close>




subsection \<open>The guard of statementToCode\<close>

text \<open>
  C9. The guard of \<^verbatim>\<open>statementToCode\<close> is false for every value of the code, so
  its error "Expecting code from statement block" is never raised: an error of the
  translation is passed on, a string is indented, and an array of code and order ends
  in the TypeError of \<^verbatim>\<open>prefixLines\<close>.
\<close>

theorem statementToCode_guard_unreachable:
  "\<not> expectingCodeGuard code
   \<and> statementToCode g block nm st =
       (case blockToCode g (getInputTargetBlock block nm) st of
          (Inl e, st') \<Rightarrow> (Inl e, st')
        | (Inr (Str s), st') \<Rightarrow> (Inr (if s \<noteq> [] then prefixLines s ''  '' else s), st')
        | (Inr (Tuple s n), st') \<Rightarrow> (Inl (JsTypeError ''text.replace is not a function''), st'))"
  by (simp add: statementToCode_def expectingCodeGuard_def numberEquals_def boolToNumber_def
        numberOfTextString_def split: prod.split sum.split result.split)

theorem statementToCode_guard_unreachable_witness:
  "\<not> expectingCodeGuard (Tuple ''a + b'' (Num 4))
   \<and> statementToCode exampleGenerator (parentOf (Some (valueBlock ''math_add''))) ''A'' ()
       = (Inl (JsTypeError ''text.replace is not a function''), ())"
  using statementToCode_guard_unreachable [where code = "Tuple ''a + b'' (Num 4)"
          and g = exampleGenerator and block = "parentOf (Some (valueBlock ''math_add''))"
          and nm = "''A''" and st = "()"]
  by (simp add: example_target example_add)

subsection \<open>Disabled blocks\<close>

text \<open>
  C3. For a disabled block, \<^verbatim>\<open>blockToCode\<close> is \<^verbatim>\<open>blockToCode\<close> of its next block
  (the empty string when it has none). In a chain of A, a disabled B and C, with A and
  C not disabled, where the rule of A gives the code \<open>a\<close> and the translation of C
  gives the code \<open>c\<close>, \<^verbatim>\<open>blockToCode\<close> of A is A's own code (\<open>a\<close> and the comment
  of A) followed by \<open>c\<close>: B adds no text and the chain goes on through it.
\<close>

theorem disabled_block_transparent:
  "(disabled D \<longrightarrow> blockToCode g (Some D) st = blockToCode g (nextBlock D) st)
   \<and> (disabled D \<and> nextBlock D = None \<longrightarrow> blockToCode g (Some D) st = (Inr (Str []), st))
   \<and> (\<not> disabled A \<and> nextBlock A = Some B \<and> disabled B \<and> nextBlock B = Some C \<and> \<not> disabled C
        \<and> rules g (btype A) = Some f \<and> f A st = (Inr (Str a), st1)
        \<and> blockToCode g (Some C) st1 = (Inr (Str c), st2)
      \<longrightarrow> blockToCode g (Some A) st
            = (Inr (Str (a @ (case commentText A of None \<Rightarrow> [] | Some t \<Rightarrow> t) @ c)), st2))"
  by (simp add: blockToCode_Some [of g A] blockToCode_Some [of g B] blockToCode_Some [of g D] scrub_eq)

theorem disabled_block_transparent_witness:
  "disabled (statementBlock ''print_skip'' True (Some (statementBlock ''print_world'' False None)))
   \<and> blockToCode exampleGenerator
        (Some (statementBlock ''print_skip'' True (Some (statementBlock ''print_world'' False None)))) ()
       = blockToCode exampleGenerator (Some (statementBlock ''print_world'' False None)) ()
   \<and> blockToCode exampleGenerator (Some (statementBlock ''print_skip'' True None)) ()
       = (Inr (Str []), ())
   \<and> blockToCode exampleGenerator (Some (statementBlock ''print_world'' False None)) ()
       = (Inr (Str (''print(2);'' @ [NL])), ())
   \<and> blockToCode exampleGenerator
        (Some (statementBlock ''print_hello'' False
           (Some (statementBlock ''print_skip'' True
              (Some (statementBlock ''print_world'' False None)))))) ()
       = (Inr (Str (''print(1);'' @ [NL] @ ''print(2);'' @ [NL])), ())"
  using disabled_block_transparent
          [where D = "statementBlock ''print_skip'' True (Some (statementBlock ''print_world'' False None))"
             and g = exampleGenerator and st = "()"
             and A = "statementBlock ''print_hello'' False
                        (Some (statementBlock ''print_skip'' True
                           (Some (statementBlock ''print_world'' False None))))"
             and B = "statementBlock ''print_skip'' True (Some (statementBlock ''print_world'' False None))"
             and C = "statementBlock ''print_world'' False None"
             and f = "\<lambda>b st. (Inr (Str (''print(1);'' @ [NL])), st)"
             and a = "''print(1);'' @ [NL]" and ?st1.0 = "()" and c = "''print(2);'' @ [NL]"
             and ?st2.0 = "()"]
        disabled_block_transparent
          [where D = "statementBlock ''print_skip'' True None" and g = exampleGenerator and st = "()"]
  by (simp add: statementBlock_def exampleGenerator_def)

subsection \<open>The registry of shared functions\<close>

declare replacePlaceholder.simps [simp del]

lemma replacePlaceholder_Nil: "replacePlaceholder template pre [] = []"
  by (simp add: replacePlaceholder.simps)


lemma example_names:
  "listGetDistinctName ''foo'' NAME_TYPE [] = (''foo'', [''foo''])"
  "listGetDistinctName ''foo'' NAME_TYPE [''foo''] = (''foo_'', [''foo_'', ''foo''])"
  by (simp_all add: listGetDistinctName_def)


text \<open>
  C5 has two calls of \<^verbatim>\<open>provideFunction\<close> with the same name return the same
  actual name, the second without a new allocation. The source, evaluated on two
  calls with the name "foo" and an empty list of lines, on a database that gives each
  name once: the first call stores the empty text and returns "foo"; the second finds
  the stored text false, takes the new name "foo_" from the database and returns it.
\<close>

theorem provideFunction_empty_body_repeat:
  "provideFunction listGetDistinctName ''foo'' [] emptyRegistry
     = (Some ''foo'',
        \<lparr> definitions = [''foo'' \<mapsto> []], functionNames = [''foo'' \<mapsto> ''foo''],
          variableDB = [''foo''] \<rparr>)
   \<and> provideFunction listGetDistinctName ''foo'' []
         \<lparr> definitions = [''foo'' \<mapsto> []], functionNames = [''foo'' \<mapsto> ''foo''],
           variableDB = [''foo''] \<rparr>
     = (Some ''foo_'',
        \<lparr> definitions = [''foo'' \<mapsto> []], functionNames = [''foo'' \<mapsto> ''foo_''],
          variableDB = [''foo_'', ''foo''] \<rparr>)"
  by (simp add: provideFunction_def emptyRegistry_def example_names replacePlaceholder_Nil)


subsection \<open>prefixLines, line by line\<close>

lemma splitLines_nonempty: "splitLines s \<noteq> []"
  by (induction s) auto

lemma join_splitLines: "join [NL] (splitLines s) = s"
proof (induction s)
  case Nil
  then show ?case by simp
next
  case (Cons c cs)
  obtain l ls where sp: "splitLines cs = l # ls"
    using splitLines_nonempty [of cs] by (cases "splitLines cs") auto
  with Cons show ?case by (cases ls) auto
qed

lemma join_concat: "join sep (x # xs) = x @ concat (map ((@) sep) xs)"
  by (induction xs arbitrary: x) auto

lemma splitLines_hd_tl: "hd (splitLines s) # tl (splitLines s) = splitLines s"
  by (simp add: splitLines_nonempty)

lemma getSubstitution_capture:
  "CHR ''$'' \<notin> set p \<Longrightarrow> getSubstitution m pre post [[d]] (p @ ''$1'') = p @ [d]"
proof (induction p)
  case Nil
  show ?case by (simp add: is_digit_def digit_val_def)
next
  case (Cons c p)
  then have c: "c \<noteq> CHR ''$''" and ih: "getSubstitution m pre post [[d]] (p @ ''$1'') = p @ [d]"
    by auto
  obtain e r where "p @ ''$1'' = e # r" by (cases p) auto
  with c ih show ?case by simp
qed

lemma concat_splitLines:
  "concat (map f (splitLines s)) = f (hd (splitLines s)) @ concat (map f (tl (splitLines s)))"
proof -
  have "concat (map f (hd (splitLines s) # tl (splitLines s)))
          = f (hd (splitLines s)) @ concat (map f (tl (splitLines s)))"
    by simp
  then show ?thesis by (simp only: splitLines_hd_tl)
qed

lemma replaceNewlineDot_lines:
  assumes "CHR ''$'' \<notin> set prefix"
  shows "replaceNewlineDot (NL # prefix @ ''$1'') pre s
           = hd (splitLines s)
             @ concat (map (\<lambda>l. NL # prefixLaterLine prefix l) (tl (splitLines s)))"
proof (induction "NL # prefix @ ''$1''" pre s rule: replaceNewlineDot.induct)
  case (1 pre)
  show ?case by simp
next
  case (2 pre c)
  show ?case by (simp add: prefixLaterLine_def)
next
  case (3 pre c d cs)
  have sub: "getSubstitution [c, d] pre cs [[d]] (NL # prefix @ ''$1'') = NL # prefix @ [d]"
    using getSubstitution_capture [of "NL # prefix" "[c, d]" pre cs d] assms by simp
  show ?case
  proof (cases "c = NL")
    case True
    show ?thesis
    proof (cases "regex_dot d")
      case dot: True
      then have dn: "d \<noteq> NL" by (simp add: regex_dot_def)
      have "replaceNewlineDot (NL # prefix @ ''$1'') pre (c # d # cs)
              = NL # prefix @ d # replaceNewlineDot (NL # prefix @ ''$1'') (pre @ [c, d]) cs"
        using True dot sub by simp
      also have "\<dots> = NL # prefix @ d # hd (splitLines cs)
                     @ concat (map (\<lambda>l. NL # prefixLaterLine prefix l) (tl (splitLines cs)))"
        using 3(1) True dot by simp
      also have "\<dots> = hd (splitLines (c # d # cs))
                     @ concat (map (\<lambda>l. NL # prefixLaterLine prefix l) (tl (splitLines (c # d # cs))))"
        using True dn dot by (simp add: prefixLaterLine_def)
      finally show ?thesis .
    next
      case nodot: False
      have keep: "prefixLaterLine prefix (hd (splitLines (d # cs))) = hd (splitLines (d # cs))"
        using nodot by (simp add: prefixLaterLine_def)
      have "replaceNewlineDot (NL # prefix @ ''$1'') pre (c # d # cs)
              = NL # replaceNewlineDot (NL # prefix @ ''$1'') (pre @ [c]) (d # cs)"
        using True nodot by simp
      also have "\<dots> = NL # hd (splitLines (d # cs))
                     @ concat (map (\<lambda>l. NL # prefixLaterLine prefix l) (tl (splitLines (d # cs))))"
        using 3(2) True nodot by simp
      also have "\<dots> = concat (map (\<lambda>l. NL # prefixLaterLine prefix l) (splitLines (d # cs)))"
        using keep concat_splitLines [of "\<lambda>l. NL # prefixLaterLine prefix l" "d # cs"] by simp
      also have "\<dots> = hd (splitLines (c # d # cs))
                     @ concat (map (\<lambda>l. NL # prefixLaterLine prefix l) (tl (splitLines (c # d # cs))))"
        using True by simp
      finally show ?thesis .
    qed
  next
    case False
    have "replaceNewlineDot (NL # prefix @ ''$1'') pre (c # d # cs)
            = c # replaceNewlineDot (NL # prefix @ ''$1'') (pre @ [c]) (d # cs)"
      using False by simp
    also have "\<dots> = c # hd (splitLines (d # cs))
                   @ concat (map (\<lambda>l. NL # prefixLaterLine prefix l) (tl (splitLines (d # cs))))"
      using 3(2) False by simp
    also have "\<dots> = hd (splitLines (c # d # cs))
                   @ concat (map (\<lambda>l. NL # prefixLaterLine prefix l) (tl (splitLines (c # d # cs))))"
      using False by simp
    finally show ?thesis .
  qed
qed

text \<open>
  C8, amended. For every text and every prefix without a dollar sign,
  \<^verbatim>\<open>prefixLines\<close> returns the text with the prefix before the first line and before
  every later line that is not empty and does not start with a carriage return (the
  prefix goes after each newline that a character other than a line terminator
  follows); the other lines stay as they are. It is a function of the text and the
  prefix alone: it reads and changes no state of the generator.
\<close>

theorem prefixLines_lines:
  assumes "CHR ''$'' \<notin> set prefix"
  shows "join [NL] (splitLines s) = s
         \<and> prefixLines s prefix
             = join [NL] ((prefix @ hd (splitLines s))
                          # map (prefixLaterLine prefix) (tl (splitLines s)))"
  using replaceNewlineDot_lines [OF assms, of "[]" s]
  by (simp add: prefixLines_def join_concat comp_def join_splitLines)

theorem prefixLines_lines_witness:
  "CHR ''$'' \<notin> set ''  ''
   \<and> splitLines (''a'' @ [NL, NL] @ ''b'' @ [NL]) = [''a'', [], ''b'', []]
   \<and> prefixLines (''a'' @ [NL, NL] @ ''b'' @ [NL]) ''  '' = ''  a'' @ [NL, NL] @ ''  b'' @ [NL]"
  using prefixLines_lines [of "''  ''" "''a'' @ [NL, NL] @ ''b'' @ [NL]"]
  by (simp add: prefixLaterLine_def regex_dot_def)

text \<open>
  The claim as it was stated fails on an empty line: in the text of the lines "a", ""
  and "b" the second line follows an embedded newline and gets no prefix. (And a
  prefix with a dollar sign is read as a template after each newline: of the prefix
  "$$" one dollar sign is left there.)
\<close>

theorem prefixLines_lines_counterexample:
  "prefixLines (''a'' @ [NL, NL] @ ''b'') ''  '' = ''  a'' @ [NL, NL] @ ''  b''
   \<and> claimedPrefixLines (''a'' @ [NL, NL] @ ''b'') ''  '' = ''  a'' @ [NL] @ ''  '' @ [NL] @ ''  b''
   \<and> prefixLines (''a'' @ [NL, NL] @ ''b'') ''  '' \<noteq> claimedPrefixLines (''a'' @ [NL, NL] @ ''b'') ''  ''
   \<and> prefixLines (''a'' @ [NL] @ ''b'') ''$$'' = ''$$a'' @ [NL] @ ''$b''"
  by (simp add: prefixLines_def claimedPrefixLines_def regex_dot_def is_digit_def digit_val_def)

subsection \<open>The white space of the text workspaceToCode returns\<close>

subsubsection \<open>Spaces and tabs before a newline\<close>

lemma regex_hspace_NL [simp]: "\<not> regex_hspace NL"
  by (simp add: regex_hspace_def)

lemma regex_s_NL [simp]: "regex_s NL"
  by (simp add: regex_s_def)





subsubsection \<open>White space after the last newline\<close>










subsubsection \<open>A blank first line\<close>









subsubsection \<open>The newline at the end\<close>










end
